theory Spec2Isabelle
  imports Complex_Main "HOL-Library.Option_ord" "HOL-Library.Product_Lexorder"
begin

section \<open>Hexagonal binning: \<^verbatim>\<open>bokeh/util/hex.py\<close>\<close>

text \<open>
  The module maps Cartesian points to the axial coordinates of the enclosing hexagonal
  tile (\<^verbatim>\<open>cartesian_to_axial\<close>, \<^verbatim>\<open>_round_hex\<close>) and counts the points per tile
  (\<^verbatim>\<open>hexbin\<close>). All arithmetic is NumPy arithmetic on arrays of float64.

  Idealisations of this development, stated once:
  \<^item> a finite float64 is a real number and finite arithmetic is exact (no rounding to 53
    bits, no overflow to infinity, no signed zero);
  \<^item> the non-finite values of float64 are kept: dividing by zero gives an infinity or
    NaN (NumPy warns and does not raise), and they propagate as IEEE 754 prescribes;
  \<^item> \<^verbatim>\<open>astype(int)\<close> yields an unbounded integer on a finite value; on a non-finite
    value NumPy's result depends on the platform and is \<open>None\<close> here;
  \<^item> arrays are one-dimensional, as the docstrings say, and are lists.
\<close>

subsection \<open>float64 scalars\<close>

datatype npfloat = Num real | PosInf | NegInf | NaN

fun f_neg :: "npfloat \<Rightarrow> npfloat" where
  "f_neg (Num a) = Num (- a)"
| "f_neg PosInf = NegInf"
| "f_neg NegInf = PosInf"
| "f_neg NaN = NaN"

fun f_add :: "npfloat \<Rightarrow> npfloat \<Rightarrow> npfloat" where
  "f_add NaN _ = NaN"
| "f_add _ NaN = NaN"
| "f_add (Num a) (Num b) = Num (a + b)"
| "f_add PosInf NegInf = NaN"
| "f_add NegInf PosInf = NaN"
| "f_add PosInf _ = PosInf"
| "f_add _ PosInf = PosInf"
| "f_add NegInf _ = NegInf"
| "f_add _ NegInf = NegInf"

definition f_sub :: "npfloat \<Rightarrow> npfloat \<Rightarrow> npfloat" where
  "f_sub a b = f_add a (f_neg b)"

text \<open>The sign of an infinite product or quotient: the infinity \<open>PosInf\<close>, flipped when
  \<open>neg\<close> holds.\<close>

definition signed_inf :: "bool \<Rightarrow> npfloat" where
  "signed_inf neg = (if neg then NegInf else PosInf)"

fun f_mul :: "npfloat \<Rightarrow> npfloat \<Rightarrow> npfloat" where
  "f_mul NaN _ = NaN"
| "f_mul _ NaN = NaN"
| "f_mul (Num a) (Num b) = Num (a * b)"
| "f_mul (Num a) PosInf = (if a = 0 then NaN else signed_inf (a < 0))"
| "f_mul (Num a) NegInf = (if a = 0 then NaN else signed_inf (0 < a))"
| "f_mul PosInf (Num b) = (if b = 0 then NaN else signed_inf (b < 0))"
| "f_mul NegInf (Num b) = (if b = 0 then NaN else signed_inf (0 < b))"
| "f_mul PosInf PosInf = PosInf"
| "f_mul PosInf NegInf = NegInf"
| "f_mul NegInf PosInf = NegInf"
| "f_mul NegInf NegInf = PosInf"

fun f_div :: "npfloat \<Rightarrow> npfloat \<Rightarrow> npfloat" where
  "f_div NaN _ = NaN"
| "f_div _ NaN = NaN"
| "f_div (Num a) (Num b) =
     (if b = 0 then (if a = 0 then NaN else signed_inf (a < 0)) else Num (a / b))"
| "f_div (Num a) PosInf = Num 0"
| "f_div (Num a) NegInf = Num 0"
| "f_div PosInf (Num b) = signed_inf (b < 0)"
| "f_div NegInf (Num b) = signed_inf (0 \<le> b)"
| "f_div PosInf PosInf = NaN"
| "f_div PosInf NegInf = NaN"
| "f_div NegInf PosInf = NaN"
| "f_div NegInf NegInf = NaN"

fun f_abs :: "npfloat \<Rightarrow> npfloat" where
  "f_abs (Num a) = Num \<bar>a\<bar>"
| "f_abs PosInf = PosInf"
| "f_abs NegInf = PosInf"
| "f_abs NaN = NaN"

text \<open>Every comparison with NaN is false.\<close>

fun f_gt :: "npfloat \<Rightarrow> npfloat \<Rightarrow> bool" where
  "f_gt NaN _ = False"
| "f_gt _ NaN = False"
| "f_gt (Num a) (Num b) = (b < a)"
| "f_gt PosInf PosInf = False"
| "f_gt PosInf _ = True"
| "f_gt NegInf _ = False"
| "f_gt (Num a) PosInf = False"
| "f_gt (Num a) NegInf = True"

text \<open>\<^verbatim>\<open>np.round\<close> with no decimals rounds to the nearest integer and a half to the even
  neighbour.\<close>

definition round_half_even :: "real \<Rightarrow> int" where
  "round_half_even a =
     (let f = \<lfloor>a\<rfloor>; d = a - of_int f
      in if d < 1 / 2 then f else if 1 / 2 < d then f + 1 else if even f then f else f + 1)"

fun f_round :: "npfloat \<Rightarrow> npfloat" where
  "f_round (Num a) = Num (of_int (round_half_even a))"
| "f_round v = v"

text \<open>\<^verbatim>\<open>astype(int)\<close> truncates towards zero.\<close>

fun astype_int :: "npfloat \<Rightarrow> int option" where
  "astype_int (Num a) = Some (if 0 \<le> a then \<lfloor>a\<rfloor> else \<lceil>a\<rceil>)"
| "astype_int v = None"

subsection \<open>Arrays, broadcasting and errors\<close>

datatype error = ValueError | OptionalDependencyMissing

type_synonym ndarray = "npfloat list"

definition ebind :: "error + 'a \<Rightarrow> ('a \<Rightarrow> error + 'b) \<Rightarrow> error + 'b" where
  "ebind m f = (case m of Inl e \<Rightarrow> Inl e | Inr v \<Rightarrow> f v)"

text \<open>An elementwise binary operation of NumPy on one-dimensional operands: equal
  lengths pair up, an operand of length one is stretched, anything else raises
  \<^verbatim>\<open>ValueError: operands could not be broadcast together\<close>.\<close>

definition broadcast :: "('a \<Rightarrow> 'b \<Rightarrow> 'c) \<Rightarrow> 'a list \<Rightarrow> 'b list \<Rightarrow> error + 'c list" where
  "broadcast f xs ys =
     (if length xs = length ys then Inr (map2 f xs ys)
      else if length xs = 1 then Inr (map (f (hd xs)) ys)
      else if length ys = 1 then Inr (map (\<lambda>x. f x (hd ys)) xs)
      else Inl ValueError)"

definition np_neg :: "ndarray \<Rightarrow> ndarray" where
  "np_neg xs = map f_neg xs"

definition np_round :: "ndarray \<Rightarrow> ndarray" where
  "np_round xs = map f_round xs"

definition np_abs :: "ndarray \<Rightarrow> ndarray" where
  "np_abs xs = map f_abs xs"

definition np_not :: "bool list \<Rightarrow> bool list" where
  "np_not cs = map Not cs"

definition np_add :: "ndarray \<Rightarrow> ndarray \<Rightarrow> error + ndarray" where
  "np_add = broadcast f_add"

definition np_sub :: "ndarray \<Rightarrow> ndarray \<Rightarrow> error + ndarray" where
  "np_sub = broadcast f_sub"

definition np_gt :: "ndarray \<Rightarrow> ndarray \<Rightarrow> error + bool list" where
  "np_gt = broadcast f_gt"

definition np_and :: "bool list \<Rightarrow> bool list \<Rightarrow> error + bool list" where
  "np_and = broadcast (\<and>)"

definition np_where :: "bool list \<Rightarrow> ndarray \<Rightarrow> ndarray \<Rightarrow> error + ndarray" where
  "np_where c a b =
     ebind (broadcast Pair a b) (\<lambda>ab.
       broadcast (\<lambda>ci (ai, bi). if ci then ai else bi) c ab)"

definition np_astype_int :: "ndarray \<Rightarrow> int option list" where
  "np_astype_int xs = map astype_int xs"

text \<open>An array and a Python scalar.\<close>

definition arr_div_s :: "ndarray \<Rightarrow> npfloat \<Rightarrow> ndarray" where
  "arr_div_s xs s = map (\<lambda>x. f_div x s) xs"

definition arr_mul_s :: "ndarray \<Rightarrow> npfloat \<Rightarrow> ndarray" where
  "arr_mul_s xs s = map (\<lambda>x. f_mul x s) xs"

definition s_mul_arr :: "npfloat \<Rightarrow> ndarray \<Rightarrow> ndarray" where
  "s_mul_arr s xs = map (f_mul s) xs"

subsection \<open>\<^verbatim>\<open>_round_hex\<close>\<close>

definition round_hex :: "ndarray \<Rightarrow> ndarray \<Rightarrow> error + (int option list \<times> int option list)" where
  "round_hex q r =
     (let x = q; z = r in
      ebind (np_sub (np_neg x) z) (\<lambda>y.
      let rx = np_round x; ry = np_round y; rz = np_round z in
      ebind (np_sub rx x) (\<lambda>ex. let dx = np_abs ex in
      ebind (np_sub ry y) (\<lambda>ey. let dy = np_abs ey in
      ebind (np_sub rz z) (\<lambda>ez. let dz = np_abs ez in
      ebind (np_gt dx dy) (\<lambda>gxy.
      ebind (np_gt dx dz) (\<lambda>gxz.
      ebind (np_and gxy gxz) (\<lambda>cond.
      ebind (np_add ry rz) (\<lambda>syz.
      ebind (np_where cond (np_neg syz) rx) (\<lambda>q'.
      ebind (np_gt dy dz) (\<lambda>gyz.
      ebind (np_and (np_not cond) (np_not gyz)) (\<lambda>cz.
      ebind (np_add rx ry) (\<lambda>sxy.
      ebind (np_where cz (np_neg sxy) rz) (\<lambda>r'.
      Inr (np_astype_int q', np_astype_int r')))))))))))))))"

subsection \<open>\<^verbatim>\<open>cartesian_to_axial\<close>\<close>

definition HEX_FLAT :: "npfloat list" where
  "HEX_FLAT = [Num (2 / 3), Num 0, Num (- 1 / 3), Num (sqrt 3 / 3)]"

definition HEX_POINTY :: "npfloat list" where
  "HEX_POINTY = [Num (sqrt 3 / 3), Num (- 1 / 3), Num 0, Num (2 / 3)]"

text \<open>Line 139 of the source: the basis is chosen by comparing strings.\<close>

definition hex_coords :: "string \<Rightarrow> npfloat list" where
  "hex_coords orientation = (if orientation = ''flattop'' then HEX_FLAT else HEX_POINTY)"

text \<open>Lines 139 to 143 of the source: the continuous axial coordinates, before rounding.\<close>

definition axial_coords ::
  "ndarray \<Rightarrow> ndarray \<Rightarrow> npfloat \<Rightarrow> string \<Rightarrow> npfloat \<Rightarrow> error + (ndarray \<times> ndarray)" where
  "axial_coords x y hsize orientation aspect_scale =
     (let coords = hex_coords orientation;
          x1 = arr_mul_s (arr_div_s x hsize)
                 (if orientation = ''pointytop'' then aspect_scale else Num 1);
          y1 = arr_div_s (arr_div_s (np_neg y) hsize)
                 (if orientation = ''flattop'' then aspect_scale else Num 1)
      in ebind (np_add (s_mul_arr (coords ! 0) x1) (s_mul_arr (coords ! 1) y1)) (\<lambda>q.
         ebind (np_add (s_mul_arr (coords ! 2) x1) (s_mul_arr (coords ! 3) y1)) (\<lambda>r.
         Inr (q, r))))"

definition cartesian_to_axial ::
  "ndarray \<Rightarrow> ndarray \<Rightarrow> npfloat \<Rightarrow> string \<Rightarrow> npfloat
     \<Rightarrow> error + (int option list \<times> int option list)" where
  "cartesian_to_axial x y hsize orientation aspect_scale =
     ebind (axial_coords x y hsize orientation aspect_scale) (\<lambda>(q, r). round_hex q r)"

subsection \<open>\<^verbatim>\<open>hexbin\<close>\<close>

record tile_row =
  tile_q :: "int option"
  tile_r :: "int option"
  counts :: nat

datatype module = Pandas

text \<open>Modelled from the spec: \<^verbatim>\<open>import_optional\<close> lives in \<^verbatim>\<open>bokeh/util/dependencies.py\<close>,
  which is not among the sources. The specification says that with the tabular grouping
  facility unavailable the Aggregator fails with an "optional dependency missing"
  error; \<open>available\<close> says whether the module can be imported.\<close>

definition import_optional :: "bool \<Rightarrow> error + module" where
  "import_optional available = (if available then Inr Pandas else Inl OptionalDependencyMissing)"

text \<open>\<^verbatim>\<open>pd.DataFrame(dict(r=r, q=q))\<close>: the columns must have one length. A row is kept as
  its key \<open>(q, r)\<close>.\<close>

definition DataFrame :: "int option list \<Rightarrow> int option list \<Rightarrow> error + (int option \<times> int option) list" where
  "DataFrame q r = (if length q = length r then Inr (zip q r) else Inl ValueError)"

text \<open>\<^verbatim>\<open>df.groupby(['q', 'r']).size().reset_index(name='counts')\<close>: one row per distinct
  key, in the order of the keys, with the number of rows of the frame under that key.\<close>

definition groupby_size :: "(int option \<times> int option) list \<Rightarrow> tile_row list" where
  "groupby_size keys =
     map (\<lambda>k. \<lparr>tile_q = fst k, tile_r = snd k, counts = count_list keys k\<rparr>)
       (sort (remdups keys))"

definition hexbin ::
  "bool \<Rightarrow> ndarray \<Rightarrow> ndarray \<Rightarrow> npfloat \<Rightarrow> string \<Rightarrow> npfloat \<Rightarrow> error + tile_row list" where
  "hexbin available x y hsize orientation aspect_scale =
     ebind (import_optional available) (\<lambda>pd.
     ebind (cartesian_to_axial x y hsize orientation aspect_scale) (\<lambda>(q, r).
     ebind (DataFrame q r) (\<lambda>df.
     Inr (groupby_size df))))"

subsection \<open>Elementwise readings\<close>

text \<open>What \<^verbatim>\<open>_round_hex\<close> does to one pair of elements: the same statements on scalars.\<close>

definition round_hex1 :: "npfloat \<Rightarrow> npfloat \<Rightarrow> int option \<times> int option" where
  "round_hex1 q r =
     (let x = q; z = r; y = f_sub (f_neg x) z;
          rx = f_round x; ry = f_round y; rz = f_round z;
          dx = f_abs (f_sub rx x); dy = f_abs (f_sub ry y); dz = f_abs (f_sub rz z);
          cond = (f_gt dx dy \<and> f_gt dx dz)
      in (astype_int (if cond then f_neg (f_add ry rz) else rx),
          astype_int (if \<not> cond \<and> \<not> f_gt dy dz then f_neg (f_add rx ry) else rz)))"

text \<open>What lines 139 to 143 do to one point.\<close>

definition axial_coords1 ::
  "npfloat \<Rightarrow> npfloat \<Rightarrow> npfloat \<Rightarrow> string \<Rightarrow> npfloat \<Rightarrow> npfloat \<times> npfloat" where
  "axial_coords1 x y hsize orientation aspect_scale =
     (let coords = hex_coords orientation;
          x1 = f_mul (f_div x hsize) (if orientation = ''pointytop'' then aspect_scale else Num 1);
          y1 = f_div (f_div (f_neg y) hsize)
                 (if orientation = ''flattop'' then aspect_scale else Num 1)
      in (f_add (f_mul (coords ! 0) x1) (f_mul (coords ! 1) y1),
          f_add (f_mul (coords ! 2) x1) (f_mul (coords ! 3) y1)))"

definition nonfinite :: "npfloat \<Rightarrow> bool" where
  "nonfinite v = (case v of Num a \<Rightarrow> False | _ \<Rightarrow> True)"

text \<open>The length of the result of broadcasting two one-dimensional operands.\<close>

definition broadcastable :: "nat \<Rightarrow> nat \<Rightarrow> bool" where
  "broadcastable m n = (m = n \<or> m = 1 \<or> n = 1)"

definition broadcast_len :: "nat \<Rightarrow> nat \<Rightarrow> nat" where
  "broadcast_len m n = (if m = n then m else if m = 1 then n else m)"

subsection \<open>The specification's wording\<close>

text \<open>The Hex Rounder as the specification words it, on real coordinates: cube
  coordinates, independent rounding, error magnitudes, and the two outputs chosen by
  strict comparisons.\<close>

definition hex_rounder_spec :: "real \<Rightarrow> real \<Rightarrow> int \<times> int" where
  "hex_rounder_spec q r =
     (let x = q; z = r; y = - x - z;
          rx = round_half_even x; ry = round_half_even y; rz = round_half_even z;
          dx = \<bar>of_int rx - x\<bar>; dy = \<bar>of_int ry - y\<bar>; dz = \<bar>of_int rz - z\<bar>
      in (if dy < dx \<and> dz < dx then - (ry + rz) else rx,
          if \<not> (dy < dx \<and> dz < dx) \<and> \<not> dz < dy then - (rx + ry) else rz))"

text \<open>The Mapper as the specification words it: an enumerated orientation, normalise by
  the size, correct one axis by the aspect scale, invert \<open>y\<close>, combine linearly.\<close>

datatype orientation = PointyTop | FlatTop




section \<open>Properties\<close>

subsection \<open>The rounder, element by element\<close>

lemma ebind_Inr [simp]: "ebind (Inr v) f = f v"
  by (simp add: ebind_def)

lemma ebind_Inl [simp]: "ebind (Inl e) f = Inl e"
  by (simp add: ebind_def)

lemma broadcast_same: "length xs = length ys \<Longrightarrow> broadcast f xs ys = Inr (map2 f xs ys)"
  by (simp add: broadcast_def)

lemma round_hex_same:
  assumes "length q = length r"
  shows "round_hex q r =
    Inr (map2 (\<lambda>a b. fst (round_hex1 a b)) q r, map2 (\<lambda>a b. snd (round_hex1 a b)) q r)"
  using assms
  apply (simp add: round_hex_def Let_def np_sub_def np_add_def np_gt_def np_and_def np_where_def
      np_neg_def np_round_def np_abs_def np_not_def np_astype_int_def broadcast_same)
  apply (intro conjI nth_equalityI)
  apply (simp_all add: round_hex1_def Let_def)
  done

lemma astype_int_of_int [simp]: "astype_int (Num (of_int n)) = Some n"
  by simp

lemma f_cube_y: "f_sub (f_neg (Num a)) (Num b) = Num (- a - b)"
  by (simp add: f_sub_def)

lemma f_err: "f_abs (f_sub (Num (of_int m)) (Num v)) = Num \<bar>of_int m - v\<bar>"
  by (simp add: f_sub_def)

lemma f_neg_sum: "f_neg (f_add (Num (of_int m)) (Num (of_int n))) = Num (of_int (- (m + n)))"
  by simp

lemma round_hex1_Num:
  "round_hex1 (Num a) (Num b) =
     (Some (fst (hex_rounder_spec a b)), Some (snd (hex_rounder_spec a b)))"
  unfolding round_hex1_def hex_rounder_spec_def Let_def
  by (simp only: f_cube_y f_round.simps f_err f_neg_sum f_gt.simps astype_int_of_int
      fst_conv snd_conv if_distrib [of Some] if_distrib [of astype_int] if_distrib [of Num])


lemma round_half_even_of_int [simp]: "round_half_even (of_int m) = m"
  by (simp add: round_half_even_def)



lemma rhe_third: "round_half_even (1 / 3) = 0" "round_half_even (- 1 / 3 - 1 / 3) = - 1"
  by (simp_all add: round_half_even_def Let_def)


subsection \<open>The rounder keeps the cube constraint and fixes the centres\<close>




lemma hex_rounder_spec_of_int: "hex_rounder_spec (of_int m) (of_int n) = (m, n)"
proof -
  have "- real_of_int m - of_int n = of_int (- m - n)"
    by simp
  then show ?thesis
    unfolding hex_rounder_spec_def Let_def
    by (simp only: round_half_even_of_int) simp
qed




subsection \<open>Broadcasting and the mapping, element by element\<close>

lemma broadcast_Inl_iff:
  "broadcast f xs ys = Inl e \<longleftrightarrow> e = ValueError \<and> \<not> broadcastable (length xs) (length ys)"
  by (auto simp: broadcast_def broadcastable_def)

lemma broadcast_Inr_length:
  "broadcast f xs ys = Inr zs \<Longrightarrow> length zs = broadcast_len (length xs) (length ys)"
  by (auto simp: broadcast_def broadcast_len_def split: if_splits)

lemma broadcast_cases:
  obtains (ok) zs where "broadcastable (length xs) (length ys)" "broadcast f xs ys = Inr zs"
      "length zs = broadcast_len (length xs) (length ys)"
    | (err) "\<not> broadcastable (length xs) (length ys)" "broadcast f xs ys = Inl ValueError"
proof (cases "broadcast f xs ys")
  case (Inl e)
  then show ?thesis
    using err by (simp add: broadcast_Inl_iff)
next
  case (Inr zs)
  moreover from Inr have "broadcastable (length xs) (length ys)"
    by (auto simp: broadcast_def broadcastable_def split: if_splits)
  ultimately show ?thesis
    using ok broadcast_Inr_length by blast
qed

lemma axial_coords_same:
  assumes "length x = length y"
  shows "axial_coords x y s ori a =
    Inr (map2 (\<lambda>u v. fst (axial_coords1 u v s ori a)) x y,
         map2 (\<lambda>u v. snd (axial_coords1 u v s ori a)) x y)"
proof -
  have zip_maps: "map2 f (map g x) (map h y) = map2 (\<lambda>u v. f (g u) (h v)) x y" for f g h
    by (simp add: zip_map_map split_def)
  show ?thesis
    using assms
    by (simp add: axial_coords_def axial_coords1_def Let_def np_add_def np_neg_def
        arr_div_s_def arr_mul_s_def s_mul_arr_def broadcast_same zip_maps comp_def
        split del: if_split)
qed

lemma axial_coords_cases:
  obtains (ok) q r where "broadcastable (length x) (length y)"
      "axial_coords x y s ori a = Inr (q, r)"
      "length q = broadcast_len (length x) (length y)"
      "length r = broadcast_len (length x) (length y)"
    | (err) "\<not> broadcastable (length x) (length y)" "axial_coords x y s ori a = Inl ValueError"
proof -
  let ?c = "hex_coords ori"
  let ?x1 = "arr_mul_s (arr_div_s x s) (if ori = ''pointytop'' then a else Num 1)"
  let ?y1 = "arr_div_s (arr_div_s (np_neg y) s) (if ori = ''flattop'' then a else Num 1)"
  have len: "length (s_mul_arr c ?x1) = length x" "length (s_mul_arr c ?y1) = length y" for c
    by (simp_all add: s_mul_arr_def arr_mul_s_def arr_div_s_def np_neg_def)
  show ?thesis
  proof (cases rule: broadcast_cases [of "s_mul_arr (?c ! 0) ?x1" "s_mul_arr (?c ! 1) ?y1" f_add])
    case (ok q)
    show ?thesis
    proof (cases rule: broadcast_cases [of "s_mul_arr (?c ! 2) ?x1" "s_mul_arr (?c ! 3) ?y1" f_add])
      case inner: (ok r)
      have "axial_coords x y s ori a = Inr (q, r)"
        using ok(2) inner(2) by (simp add: axial_coords_def Let_def np_add_def)
      with ok inner that(1) show ?thesis
        by (simp add: len)
    next
      case err
      with ok(1) show ?thesis
        by (simp add: len)
    qed
  next
    case err
    then have "axial_coords x y s ori a = Inl ValueError"
      by (simp add: axial_coords_def Let_def np_add_def)
    with err(1) that(2) show ?thesis
      by (simp add: len)
  qed
qed

lemma cartesian_to_axial_same:
  assumes "length x = length y"
  shows "cartesian_to_axial x y s ori a =
    Inr (map2 (\<lambda>u v. fst (round_hex1 (fst (axial_coords1 u v s ori a))
                                       (snd (axial_coords1 u v s ori a)))) x y,
         map2 (\<lambda>u v. snd (round_hex1 (fst (axial_coords1 u v s ori a))
                                       (snd (axial_coords1 u v s ori a)))) x y)"
  using assms
  by (simp add: cartesian_to_axial_def axial_coords_same round_hex_same zip_map_map
      split_def zip_same_conv_map)

lemma cartesian_to_axial_cases:
  obtains (ok) q r where "broadcastable (length x) (length y)"
      "cartesian_to_axial x y s ori a = Inr (q, r)"
      "length q = broadcast_len (length x) (length y)"
      "length r = broadcast_len (length x) (length y)"
    | (err) "\<not> broadcastable (length x) (length y)"
      "cartesian_to_axial x y s ori a = Inl ValueError"
proof (cases rule: axial_coords_cases [of x y s ori a])
  case (ok q r)
  then have "cartesian_to_axial x y s ori a =
    Inr (map2 (\<lambda>a b. fst (round_hex1 a b)) q r, map2 (\<lambda>a b. snd (round_hex1 a b)) q r)"
    by (simp add: cartesian_to_axial_def round_hex_same)
  with ok that(1) show ?thesis
    by simp
next
  case err
  with that(2) show ?thesis
    by (simp add: cartesian_to_axial_def)
qed

subsection \<open>A size that is not positive\<close>

lemma nonfinite_simps [simp]:
  "\<not> nonfinite (Num a)" "nonfinite PosInf" "nonfinite NegInf" "nonfinite NaN"
  by (simp_all add: nonfinite_def)

lemma nonfinite_signed_inf [simp]: "nonfinite (signed_inf b)"
  by (simp add: signed_inf_def)

lemma nonfinite_div_zero: "nonfinite (f_div v (Num 0))"
  by (cases v) simp_all

lemma nonfinite_f_neg: "nonfinite v \<Longrightarrow> nonfinite (f_neg v)"
  by (cases v) simp_all

lemma nonfinite_f_div: "nonfinite v \<Longrightarrow> nonfinite (f_div v w)"
  by (cases v; cases w) simp_all

lemma nonfinite_f_mul_left: "nonfinite v \<Longrightarrow> nonfinite (f_mul v w)"
  by (cases v; cases w) simp_all

lemma nonfinite_f_mul_right: "nonfinite v \<Longrightarrow> nonfinite (f_mul w v)"
  by (cases v; cases w) simp_all

lemma nonfinite_f_add: "nonfinite v \<Longrightarrow> nonfinite w \<Longrightarrow> nonfinite (f_add v w)"
  by (cases v; cases w) simp_all

lemma round_hex1_nonfinite:
  "nonfinite v \<Longrightarrow> nonfinite w \<Longrightarrow> round_hex1 v w = (None, None)"
  by (cases v; cases w) (simp_all add: round_hex1_def f_sub_def)

lemma axial_coords1_size_zero:
  "nonfinite (fst (axial_coords1 u v (Num 0) ori a))"
  "nonfinite (snd (axial_coords1 u v (Num 0) ori a))"
  unfolding axial_coords1_def Let_def fst_conv snd_conv
  by (intro nonfinite_f_add nonfinite_f_mul_right nonfinite_f_mul_left nonfinite_f_div
      nonfinite_div_zero)+

lemma f_div_reflect: "s < 0 \<Longrightarrow> f_div (f_neg v) (Num (- s)) = f_div v (Num s)"
  by (cases v) (simp_all add: signed_inf_def)

lemma cartesian_to_axial_reflect:
  assumes "s < 0"
  shows "cartesian_to_axial x y (Num s) ori a =
     cartesian_to_axial (np_neg x) (np_neg y) (Num (- s)) ori a"
proof -
  have "arr_div_s (np_neg v) (Num (- s)) = arr_div_s v (Num s)" for v
    using assms by (simp add: arr_div_s_def np_neg_def f_div_reflect)
  then show ?thesis
    by (simp add: cartesian_to_axial_def axial_coords_def)
qed

text \<open>
  Claim C4, as amended. The mapping does not validate the size. For every batch of
  equal-length \<open>x\<close> and \<open>y\<close> and every size less than or equal to zero it raises no
  error and returns index arrays of the batch's length: a zero size makes every
  coordinate non-finite, so every index is the unspecified cast of a non-finite value,
  and a negative size gives the tiles of the point-reflected batch at the size's
  absolute value.
\<close>

theorem cartesian_to_axial_nonpositive_size:
  assumes "s \<le> 0" and "length x = length y"
  shows "\<exists>q r. cartesian_to_axial x y (Num s) ori a = Inr (q, r)
     \<and> length q = length x \<and> length r = length x
     \<and> (if s = 0 then q = replicate (length x) None \<and> r = replicate (length x) None
        else cartesian_to_axial (np_neg x) (np_neg y) (Num (- s)) ori a = Inr (q, r))"
proof (cases "s = 0")
  case True
  have "map2 (\<lambda>u v. fst (round_hex1 (fst (axial_coords1 u v (Num 0) ori a))
                                       (snd (axial_coords1 u v (Num 0) ori a)))) x y
        = replicate (length x) None"
    "map2 (\<lambda>u v. snd (round_hex1 (fst (axial_coords1 u v (Num 0) ori a))
                                       (snd (axial_coords1 u v (Num 0) ori a)))) x y
        = replicate (length x) None"
    using assms(2)
    by (intro nth_equalityI; simp add: round_hex1_nonfinite axial_coords1_size_zero)+
  with True assms(2) show ?thesis
    by (simp add: cartesian_to_axial_same)
next
  case False
  with assms(1) have "s < 0"
    by simp
  then have refl: "cartesian_to_axial (np_neg x) (np_neg y) (Num (- s)) ori a =
      cartesian_to_axial x y (Num s) ori a"
    by (rule cartesian_to_axial_reflect [symmetric])
  from assms(2) obtain q r where res: "cartesian_to_axial x y (Num s) ori a = Inr (q, r)"
    and "length q = length x" "length r = length x"
    by (simp add: cartesian_to_axial_same)
  with False refl show ?thesis
    by simp
qed

lemma floor_minus_one_real: "\<lfloor>- 1 :: real\<rfloor> = - 1"
  using floor_of_int [of "- 1", where ?'a = real] by simp

lemma c2a_negative_example:
  "cartesian_to_axial [Num 0] [Num 3] (Num (- 1)) ''pointytop'' (Num 1)
     = Inr ([Some (- 1)], [Some 2])"
  by (simp add: cartesian_to_axial_same axial_coords1_def hex_coords_def HEX_POINTY_def
      round_hex1_Num hex_rounder_spec_def round_half_even_def Let_def floor_minus_one_real)

lemma c2a_zero_example:
  "cartesian_to_axial [Num 0] [Num 3] (Num 0) ''pointytop'' (Num 1) = Inr ([None], [None])"
  by (simp add: cartesian_to_axial_same round_hex1_nonfinite axial_coords1_size_zero)

text \<open>
  Claim C4 as stated fails: with size \<open>- 1\<close> and with size \<open>0\<close> the mapping returns a
  result and raises nothing.
\<close>

theorem cartesian_to_axial_nonpositive_size_counterexample:
  "cartesian_to_axial [Num 0] [Num 3] (Num (- 1)) ''pointytop'' (Num 1)
     = Inr ([Some (- 1)], [Some 2])
   \<and> cartesian_to_axial [Num 0] [Num 3] (Num 0) ''pointytop'' (Num 1) = Inr ([None], [None])"
  by (simp add: c2a_negative_example c2a_zero_example)

theorem cartesian_to_axial_nonpositive_size_witness:
  "(- 1 :: real) \<le> 0 \<and> length [Num 0] = length [Num 3]
   \<and> cartesian_to_axial [Num 0] [Num 3] (Num (- 1)) ''pointytop'' (Num 1)
       = Inr ([Some (- 1)], [Some 2])
   \<and> cartesian_to_axial (np_neg [Num 0]) (np_neg [Num 3]) (Num (- (- 1))) ''pointytop'' (Num 1)
       = Inr ([Some (- 1)], [Some 2])"
  using cartesian_to_axial_nonpositive_size [of "- 1" "[Num 0]" "[Num 3]" "''pointytop''" "Num 1"]
  by (simp add: c2a_negative_example)

subsection \<open>Sequences of different lengths\<close>

lemma import_optional_True [simp]: "import_optional True = Inr Pandas"
  by (simp add: import_optional_def)

lemma hexbin_available:
  "hexbin True x y s ori a =
     ebind (cartesian_to_axial x y s ori a) (\<lambda>(q, r). ebind (DataFrame q r) (\<lambda>df. Inr (groupby_size df)))"
  by (simp add: hexbin_def)

lemma hexbin_cases:
  obtains (ok) q r where "broadcastable (length x) (length y)"
      "cartesian_to_axial x y s ori a = Inr (q, r)"
      "length q = broadcast_len (length x) (length y)"
      "length r = broadcast_len (length x) (length y)"
      "hexbin True x y s ori a = Inr (groupby_size (zip q r))"
    | (err) "\<not> broadcastable (length x) (length y)"
      "cartesian_to_axial x y s ori a = Inl ValueError"
      "hexbin True x y s ori a = Inl ValueError"
proof (cases rule: cartesian_to_axial_cases [of x y s ori a])
  case (ok q r)
  then have "hexbin True x y s ori a = Inr (groupby_size (zip q r))"
    by (simp add: hexbin_available DataFrame_def)
  with ok that(1) show ?thesis
    by blast
next
  case err
  then have "hexbin True x y s ori a = Inl ValueError"
    by (simp add: hexbin_available)
  with err that(2) show ?thesis
    by blast
qed








subsection \<open>The mapping follows the specification\<close>

lemma hex_coords_names:
  "hex_coords ''flattop'' = [Num (2 / 3), Num 0, Num (- 1 / 3), Num (sqrt 3 / 3)]"
  "hex_coords ''pointytop'' = [Num (sqrt 3 / 3), Num (- 1 / 3), Num 0, Num (2 / 3)]"
  by (simp_all add: hex_coords_def HEX_FLAT_def HEX_POINTY_def)





subsection \<open>An orientation that is neither of the two names\<close>

lemma fallback_axial_coords:
  assumes "ori \<noteq> ''flattop''" and "ori \<noteq> ''pointytop''"
  shows "axial_coords x y s ori a = axial_coords x y s ''pointytop'' (Num 1)"
  using assms by (simp add: axial_coords_def hex_coords_def)

lemma HEX_differ: "HEX_POINTY \<noteq> HEX_FLAT"
  by (simp add: HEX_FLAT_def HEX_POINTY_def)

text \<open>
  Claim C7. An orientation other than the two recognised strings raises no error: the
  pointy-top basis is used (only the string \<^verbatim>\<open>flattop\<close> selects the flat-top one), and
  the mapping returns what it returns for pointy-top with aspect scale one.
\<close>

theorem unrecognized_orientation_falls_back:
  assumes "ori \<noteq> ''flattop''" and "ori \<noteq> ''pointytop''"
  shows "hex_coords ori = HEX_POINTY
     \<and> (hex_coords ori' = HEX_FLAT \<longleftrightarrow> ori' = ''flattop'')
     \<and> axial_coords x y s ori a = axial_coords x y s ''pointytop'' (Num 1)
     \<and> cartesian_to_axial x y s ori a = cartesian_to_axial x y s ''pointytop'' (Num 1)
     \<and> (length x = length y \<longrightarrow>
          (\<exists>q r. cartesian_to_axial x y s ori a = Inr (q, r)
             \<and> length q = length x \<and> length r = length x))"
proof -
  have "hex_coords ori = HEX_POINTY"
    using assms by (simp add: hex_coords_def)
  moreover have "hex_coords ori' = HEX_FLAT \<longleftrightarrow> ori' = ''flattop''"
    using HEX_differ by (simp add: hex_coords_def)
  moreover note fallback_axial_coords [OF assms]
  moreover have "cartesian_to_axial x y s ori a = cartesian_to_axial x y s ''pointytop'' (Num 1)"
    by (simp add: cartesian_to_axial_def fallback_axial_coords [OF assms])
  moreover have "length x = length y \<longrightarrow>
          (\<exists>q r. cartesian_to_axial x y s ori a = Inr (q, r)
             \<and> length q = length x \<and> length r = length x)"
    by (simp add: cartesian_to_axial_same)
  ultimately show ?thesis
    by blast
qed

lemma c2a_pointy_example:
  "cartesian_to_axial [Num 0] [Num 3] (Num 1) ''pointytop'' (Num 1) = Inr ([Some 1], [Some (- 2)])"
  by (simp add: cartesian_to_axial_same axial_coords1_def hex_coords_names
      round_hex1_Num hex_rounder_spec_of_int [of 1 "- 2", simplified])

theorem unrecognized_orientation_falls_back_witness:
  "''sideways'' \<noteq> ''flattop'' \<and> ''sideways'' \<noteq> ''pointytop''
   \<and> length [Num 0] = length [Num 3]
   \<and> hex_coords ''sideways'' = HEX_POINTY
   \<and> cartesian_to_axial [Num 0] [Num 3] (Num 1) ''sideways'' (Num 7)
       = Inr ([Some 1], [Some (- 2)])"
  using unrecognized_orientation_falls_back
    [of "''sideways''" "''sideways''" "[Num 0]" "[Num 3]" "Num 1" "Num 7"]
  by (simp add: c2a_pointy_example)

text \<open>
  Claim C10. For an orientation that is neither \<^verbatim>\<open>pointytop\<close> nor \<^verbatim>\<open>flattop\<close> the output
  does not depend on the aspect scale: two runs that differ only in it agree.
\<close>

theorem unrecognized_orientation_ignores_aspect_scale:
  assumes "ori \<noteq> ''pointytop''" and "ori \<noteq> ''flattop''"
  shows "cartesian_to_axial x y s ori a1 = cartesian_to_axial x y s ori a2
     \<and> hexbin av x y s ori a1 = hexbin av x y s ori a2"
  using assms by (simp add: cartesian_to_axial_def axial_coords_def hexbin_def)

theorem unrecognized_orientation_ignores_aspect_scale_witness:
  "''sideways'' \<noteq> ''pointytop'' \<and> ''sideways'' \<noteq> ''flattop''
   \<and> cartesian_to_axial [Num 4] [Num 3] (Num 1) ''sideways'' (Num 2)
       = cartesian_to_axial [Num 4] [Num 3] (Num 1) ''sideways'' (Num 5)"
  using unrecognized_orientation_ignores_aspect_scale
    [of "''sideways''" "[Num 4]" "[Num 3]" "Num 1" "Num 2" "Num 5" True]
  by simp

subsection \<open>Counting the points of each tile\<close>

lemma groupby_size_keys:
  "map (\<lambda>row. (tile_q row, tile_r row)) (groupby_size keys) = sort (remdups keys)"
  by (simp add: groupby_size_def comp_def)

lemma groupby_size_counts:
  "map counts (groupby_size keys) = map (count_list keys) (sort (remdups keys))"
  by (simp add: groupby_size_def comp_def)

lemma groupby_size_sum: "sum_list (map counts (groupby_size keys)) = length keys"
proof -
  have "sum_list (map (count_list keys) (sort (remdups keys)))
      = sum (count_list keys) (set (sort (remdups keys)))"
    by (rule sum_list_distinct_conv_sum_set) simp
  also have "\<dots> = length keys"
    by (simp add: sum_count_set)
  finally show ?thesis
    by (simp add: groupby_size_counts)
qed

lemma groupby_size_Nil_iff: "groupby_size keys = [] \<longleftrightarrow> keys = []"
proof -
  have "set (sort (remdups keys)) = set keys"
    by simp
  then have "sort (remdups keys) = [] \<longleftrightarrow> keys = []"
    by (metis set_empty)
  then show ?thesis
    by (simp add: groupby_size_def)
qed

lemma groupby_size_row:
  assumes "row \<in> set (groupby_size keys)"
  shows "counts row = count_list keys (tile_q row, tile_r row)"
  using assms by (auto simp: groupby_size_def)

text \<open>
  Claim C8. For every batch of equal-length \<open>x\<close> and \<open>y\<close>, with pandas importable, the
  counts of the records that \<^verbatim>\<open>hexbin\<close> returns sum to the number of input points; the
  empty batch, and only it, gives no record; the records have distinct tiles, exactly
  the tiles that received a point, and the count of a record is the number of points
  mapped to its tile.
\<close>

theorem hexbin_counts:
  assumes "length x = length y"
  shows "\<exists>q r rows. cartesian_to_axial x y s ori a = Inr (q, r)
     \<and> length q = length x \<and> length r = length x
     \<and> hexbin True x y s ori a = Inr rows
     \<and> sum_list (map counts rows) = length x
     \<and> (rows = [] \<longleftrightarrow> x = [])
     \<and> distinct (map (\<lambda>row. (tile_q row, tile_r row)) rows)
     \<and> set (map (\<lambda>row. (tile_q row, tile_r row)) rows) = set (zip q r)
     \<and> (\<forall>row \<in> set rows. counts row = count_list (zip q r) (tile_q row, tile_r row))"
proof (cases rule: hexbin_cases [of x y s ori a])
  case (ok q r)
  let ?rows = "groupby_size (zip q r)"
  from ok assms have len: "length q = length x" "length r = length x"
    by (simp_all add: broadcast_len_def)
  then have "sum_list (map counts ?rows) = length x"
    by (simp add: groupby_size_sum)
  moreover have "?rows = [] \<longleftrightarrow> x = []"
    using len by (cases x; cases q; cases r) (simp_all add: groupby_size_Nil_iff)
  moreover have "distinct (map (\<lambda>row. (tile_q row, tile_r row)) ?rows)"
    "set (map (\<lambda>row. (tile_q row, tile_r row)) ?rows) = set (zip q r)"
    by (simp_all only: groupby_size_keys distinct_sort distinct_remdups set_sort set_remdups)
  moreover have "\<forall>row \<in> set ?rows. counts row = count_list (zip q r) (tile_q row, tile_r row)"
    by (simp add: groupby_size_row)
  ultimately show ?thesis
    using ok(2,5) len by blast
next
  case err
  with assms show ?thesis
    by (simp add: broadcastable_def)
qed


lemma rhe_tenths:
  "round_half_even (1 / 10) = 0" "round_half_even (- (1 / 5)) = 0"
  "round_half_even (- (1 / 10) - - (1 / 5)) = 0" "round_half_even (- (1 / 10) + 1 / 5) = 0"
  by (simp_all add: round_half_even_def Let_def)

lemma c2a_three_points:
  "cartesian_to_axial [Num 0, Num 0, Num 0] [Num 0, Num (3 / 10), Num 3] (Num 1) ''pointytop''
     (Num 1) = Inr ([Some 0, Some 0, Some 1], [Some 0, Some 0, Some (- 2)])"
proof -
  have spec: "hex_rounder_spec (1 / 10) (- (1 / 5)) = (0, 0)"
    by (simp add: hex_rounder_spec_def Let_def rhe_tenths)
  show ?thesis
    by (simp add: cartesian_to_axial_same axial_coords1_def Let_def hex_coords_names
        round_hex1_Num spec hex_rounder_spec_of_int [of 0 0, simplified]
        hex_rounder_spec_of_int [of 1 "- 2", simplified])
qed

lemma groupby_three_points:
  "groupby_size [(Some 0, Some 0), (Some 0, Some 0), (Some 1, Some (- 2))] =
     [\<lparr>tile_q = Some 0, tile_r = Some 0, counts = 2\<rparr>,
      \<lparr>tile_q = Some 1, tile_r = Some (- 2), counts = 1\<rparr>]"
  by (simp add: groupby_size_def less_eq_prod_def less_eq_option_def less_option_def)

lemma hexbin_three_points:
  "hexbin True [Num 0, Num 0, Num 0] [Num 0, Num (3 / 10), Num 3] (Num 1) ''pointytop'' (Num 1)
     = Inr [\<lparr>tile_q = Some 0, tile_r = Some 0, counts = 2\<rparr>,
            \<lparr>tile_q = Some 1, tile_r = Some (- 2), counts = 1\<rparr>]"
  by (simp add: hexbin_available c2a_three_points DataFrame_def groupby_three_points)

theorem hexbin_counts_witness:
  "length [Num 0, Num 0, Num 0] = length [Num 0, Num (3 / 10), Num 3]
   \<and> (\<exists>rows. hexbin True [Num 0, Num 0, Num 0] [Num 0, Num (3 / 10), Num 3] (Num 1)
                ''pointytop'' (Num 1) = Inr rows
         \<and> rows = [\<lparr>tile_q = Some 0, tile_r = Some 0, counts = 2\<rparr>,
                    \<lparr>tile_q = Some 1, tile_r = Some (- 2), counts = 1\<rparr>]
         \<and> sum_list (map counts rows) = 3
         \<and> (\<forall>row \<in> set rows. counts row
               = count_list [(Some 0, Some 0), (Some 0, Some 0), (Some 1, Some (- 2))]
                   (tile_q row, tile_r row)))"
  using hexbin_counts [of "[Num 0, Num 0, Num 0]" "[Num 0, Num (3 / 10), Num 3]" "Num 1"
      "''pointytop''" "Num 1"]
  by (simp add: hexbin_three_points c2a_three_points)

subsection \<open>The optional dependency\<close>

lemma ebind_no_dep:
  assumes "m \<noteq> Inl OptionalDependencyMissing"
    and "\<And>v. f v \<noteq> Inl OptionalDependencyMissing"
  shows "ebind m f \<noteq> Inl OptionalDependencyMissing"
  using assms by (cases m) simp_all

lemma broadcast_no_dep: "broadcast f xs ys \<noteq> Inl OptionalDependencyMissing"
  by (simp add: broadcast_Inl_iff)

lemma np_where_no_dep: "np_where c u v \<noteq> Inl OptionalDependencyMissing"
  unfolding np_where_def by (intro ebind_no_dep broadcast_no_dep)

lemma round_hex_no_dep: "round_hex q r \<noteq> Inl OptionalDependencyMissing"
  unfolding round_hex_def Let_def np_sub_def np_add_def np_gt_def np_and_def
  by (intro ebind_no_dep broadcast_no_dep np_where_no_dep) simp

lemma axial_coords_no_dep: "axial_coords x y s ori a \<noteq> Inl OptionalDependencyMissing"
  by (cases rule: axial_coords_cases [of x y s ori a]) simp_all

lemma cartesian_to_axial_no_dep:
  "cartesian_to_axial x y s ori a \<noteq> Inl OptionalDependencyMissing"
  by (cases rule: cartesian_to_axial_cases [of x y s ori a]) simp_all

text \<open>
  Claim C9. With pandas unavailable \<^verbatim>\<open>hexbin\<close> fails with the "optional dependency
  missing" error on every input and returns no result; \<^verbatim>\<open>cartesian_to_axial\<close>, its
  coordinate lines and \<^verbatim>\<open>_round_hex\<close> never fail with that error.
\<close>

theorem hexbin_requires_pandas:
  "hexbin False x y s ori a = Inl OptionalDependencyMissing
   \<and> cartesian_to_axial x y s ori a \<noteq> Inl OptionalDependencyMissing
   \<and> axial_coords x y s ori a \<noteq> Inl OptionalDependencyMissing
   \<and> round_hex q r \<noteq> Inl OptionalDependencyMissing"
  by (simp add: hexbin_def import_optional_def cartesian_to_axial_no_dep axial_coords_no_dep
      round_hex_no_dep)

end
